theory Spec2Isabelle
  imports Complex_Main
begin

section \<open>The account-opening form: schema and submission\<close>

text \<open>
  The program is one React component, \<^verbatim>\<open>AccountForm.tsx\<close>. Its logic is the zod schema
  \<^verbatim>\<open>schema\<close> (one rule chain per field), handed to react-hook-form through
  \<^verbatim>\<open>zodResolver\<close>, and the submission handling: \<^verbatim>\<open>handleSubmit(onSubmit)\<close>, the
  \<^verbatim>\<open>isSubmitted\<close> flag and the submit button that is disabled while \<^verbatim>\<open>isSubmitting\<close>.
  The schema is translated field by field, in the order of the source; the behaviour of
  the libraries it is written in (zod 3, the resolver, react-hook-form, the JavaScript
  \<^verbatim>\<open>Date\<close>) is written out where the schema relies on it, and so is the constraint
  validation the browser applies to the form's inputs before it raises a submit event.
  The rule table of the specification is written down apart from the schema, and the
  schema is compared with it.
\<close>

subsection \<open>JavaScript values\<close>

text \<open>
  A JavaScript number is a double. The schema only compares numbers, and comparison of
  doubles is exact, so a finite number is modelled by the real it denotes (\<open>-0\<close> and
  \<open>0\<close> are the same real, as they are for \<^verbatim>\<open><\<close>). \<open>NaN\<close> is what
  \<^verbatim>\<open>valueAsNumber\<close> gives for an empty or non-numeric input.
\<close>

datatype number = NaN | Finite real | PosInfinity | NegInfinity

text \<open>JavaScript's \<^verbatim>\<open>a < b\<close> on numbers: false whenever an operand is \<open>NaN\<close>.\<close>

fun lessThan :: "number \<Rightarrow> number \<Rightarrow> bool" where
  "lessThan NaN b = False"
| "lessThan a NaN = False"
| "lessThan (Finite x) (Finite y) = (x < y)"
| "lessThan (Finite x) PosInfinity = True"
| "lessThan (Finite x) NegInfinity = False"
| "lessThan PosInfinity b = False"
| "lessThan NegInfinity NegInfinity = False"
| "lessThan NegInfinity b = True"

text \<open>
  Strings are lists of code units, and the length of a string counts them (a \<open>char\<close>
  holds the units up to 255; no check looks at a unit further than to ask whether it is
  an ASCII digit, letter or punctuation mark). \<^verbatim>\<open>\d\<close> in a JavaScript regular
  expression is \<^verbatim>\<open>[0-9]\<close>.
\<close>

definition digit :: "char \<Rightarrow> bool" where
  "digit c = (48 \<le> (of_char c :: nat) \<and> (of_char c :: nat) \<le> 57)"

definition letter :: "char \<Rightarrow> bool" where
  "letter c = (let n = (of_char c :: nat) in (65 \<le> n \<and> n \<le> 90) \<or> (97 \<le> n \<and> n \<le> 122))"

text \<open>\<^verbatim>\<open>/^\d+$/\<close>: one or more digits and nothing else.\<close>

definition regexDigits :: "string \<Rightarrow> bool" where
  "regexDigits s = (s \<noteq> [] \<and> list_all digit s)"

text \<open>
  \<^verbatim>\<open>/\d{4}-\d{2}-\d{2}/\<close>. The pattern has no anchors, so \<^verbatim>\<open>test\<close> succeeds when
  the pattern matches at some position of the string: \<open>dateAt\<close> is a match at the
  start, \<open>regexDate\<close> tries every position.
\<close>

fun dateAt :: "string \<Rightarrow> bool" where
  "dateAt (y1 # y2 # y3 # y4 # h1 # m1 # m2 # h2 # d1 # d2 # rest) =
     (digit y1 \<and> digit y2 \<and> digit y3 \<and> digit y4 \<and> h1 = CHR ''-'' \<and>
      digit m1 \<and> digit m2 \<and> h2 = CHR ''-'' \<and> digit d1 \<and> digit d2)"
| "dateAt s = False"

fun regexDate :: "string \<Rightarrow> bool" where
  "regexDate [] = False"
| "regexDate (c # cs) = (dateAt (c # cs) \<or> regexDate cs)"

subsection \<open>The platform: clock, time zone, date parsing, email patterns\<close>

text \<open>
  What the schema reads from its environment is a parameter of the model:
  \<^item> \<open>currentYear\<close>: \<^verbatim>\<open>new Date().getFullYear()\<close>, the calendar year of "now" in local time;
  \<^item> \<open>utcOffsetMinutes\<close>: local time minus UTC at the instant a date of birth denotes, in
    minutes (between \<open>-24\<close> and \<open>24\<close> hours);
  \<^item> \<open>legacyYear\<close>: the local year \<^verbatim>\<open>new Date(s).getFullYear()\<close> gives for a string
    that is not in the ECMAScript date-only format, where the language leaves the parse
    to the implementation (\<open>None\<close> is \<open>NaN\<close>, an invalid date);
  \<^item> \<open>emailPattern\<close>: the pattern behind zod's \<^verbatim>\<open>.email()\<close>, which differs between
    releases of zod;
  \<^item> \<open>typeEmail\<close>: what the browser takes for an e-mail address in an
    \<^verbatim>\<open><input type="email">\<close>.
\<close>

record platform =
  currentYear :: int
  utcOffsetMinutes :: int
  legacyYear :: "string \<Rightarrow> int option"
  emailPattern :: "string \<Rightarrow> bool"
  typeEmail :: "string \<Rightarrow> bool"

definition digitValue :: "char \<Rightarrow> int" where
  "digitValue c = int (of_char c) - 48"

definition decimal :: "string \<Rightarrow> int" where
  "decimal s = foldl (\<lambda>n c. 10 * n + digitValue c) 0 s"

text \<open>
  The ECMAScript date-only format \<^verbatim>\<open>YYYY-MM-DD\<close>: exactly ten characters of that
  shape, read as year, month and day.
\<close>

definition isoDateOnly :: "string \<Rightarrow> (int \<times> int \<times> int) option" where
  "isoDateOnly s =
     (if dateAt s \<and> length s = 10
      then Some (decimal (take 4 s), decimal (take 2 (drop 5 s)), decimal (drop 8 s))
      else None)"

definition leapYear :: "int \<Rightarrow> bool" where
  "leapYear y = (y mod 4 = 0 \<and> (y mod 100 \<noteq> 0 \<or> y mod 400 = 0))"

definition daysInMonth :: "int \<Rightarrow> int \<Rightarrow> int" where
  "daysInMonth y m =
     (if m = 2 then (if leapYear y then 29 else 28)
      else if m = 4 \<or> m = 6 \<or> m = 9 \<or> m = 11 then 30 else 31)"

text \<open>
  \<^verbatim>\<open>new Date(dob).getFullYear()\<close>. A date-only string is midnight UTC of that day;
  \<^verbatim>\<open>getFullYear\<close> reads the year in local time, which behind UTC is still the day
  before, so the first of January reads as the year before. A month outside 1..12 or a
  day outside 1..31 is an invalid date. A day past the end of its month (the 30th of
  February) is accepted by some engines and rolled into the next month, and refused by
  others; December has 31 days, so the year is the same in both.
\<close>

definition getFullYear :: "platform \<Rightarrow> string \<Rightarrow> int option" where
  "getFullYear pf s =
     (case isoDateOnly s of
        None \<Rightarrow> legacyYear pf s
      | Some (y, m, d) \<Rightarrow>
          if m < 1 \<or> 12 < m \<or> d < 1 \<or> 31 < d then None
          else if daysInMonth y m < d then legacyYear pf s
          else Some (if utcOffsetMinutes pf < 0 \<and> m = 1 \<and> d = 1 then y - 1 else y))"

subsection \<open>Rule chains\<close>

text \<open>
  A zod schema is a type with a chain of checks. Each check is a predicate with the
  message of the issue it raises. A failed check of a string or of a refinement marks the
  result dirty and the remaining checks still run; a failed type check (a number that is
  \<open>NaN\<close>, a value outside an enum, a literal that differs) aborts the chain. The third
  component says which.
\<close>

type_synonym 'a check = "('a \<Rightarrow> bool) \<times> string \<times> bool"

fun runChecks :: "'a check list \<Rightarrow> 'a \<Rightarrow> string list" where
  "runChecks [] x = []"
| "runChecks ((ok, message, aborts) # cs) x =
     (if ok x then runChecks cs x
      else message # (if aborts then [] else runChecks cs x))"

subsection \<open>The schema\<close>

text \<open>The values react-hook-form reads from the registered inputs, \<^verbatim>\<open>FormDataType\<close>.\<close>

record FormDataType =
  fullname :: string
  email :: string
  phone :: string
  dob :: string
  accountType :: string
  initialDeposit :: number
  currency :: string
  streetaddress :: string
  city :: string
  zipcode :: string
  terms :: bool

definition fullname_schema :: "string check list" where
  "fullname_schema =
     [(\<lambda>s. 1 \<le> length s, ''Full name is required'', False),
      (\<lambda>s. 3 \<le> length s, ''Full name must be at least 3 characters long'', False)]"

definition email_schema :: "platform \<Rightarrow> string check list" where
  "email_schema pf =
     [(\<lambda>s. 1 \<le> length s, ''Email is required'', False),
      (emailPattern pf, ''Invalid email address'', False)]"

definition phone_schema :: "string check list" where
  "phone_schema =
     [(\<lambda>s. 1 \<le> length s, ''Phone number is required'', False),
      (regexDigits, ''Phone number must be digits only'', False),
      (\<lambda>s. length s = 10, ''Phone number must be exactly 10 digits'', False)]"

text \<open>
  The refinement of \<^verbatim>\<open>dob\<close>: \<^verbatim>\<open>currentYear - birthYear >= 18\<close>, which is false when
  the birth year is \<open>NaN\<close>.
\<close>

definition adult :: "platform \<Rightarrow> string \<Rightarrow> bool" where
  "adult pf s =
     (case getFullYear pf s of
        None \<Rightarrow> False
      | Some birthYear \<Rightarrow> 18 \<le> currentYear pf - birthYear)"

definition dob_schema :: "platform \<Rightarrow> string check list" where
  "dob_schema pf =
     [(regexDate, ''Invalid date format (YYYY-MM-DD)'', False),
      (adult pf, ''You must be at least 18 years old'', False)]"

definition accountType_schema :: "string check list" where
  "accountType_schema =
     [(\<lambda>s. s \<in> set [''savings'', ''current''], ''Account type is required'', True)]"

definition initialDeposit_schema :: "number check list" where
  "initialDeposit_schema =
     [(\<lambda>n. n \<noteq> NaN, ''Expected number, received nan'', True),
      (\<lambda>n. \<not> lessThan n (Finite 100), ''Minimum deposit is $100'', False)]"

definition currency_schema :: "string check list" where
  "currency_schema =
     [(\<lambda>s. s \<in> set [''USD'', ''EUR'', ''LKR''], ''Select a valid currency'', True)]"

definition streetaddress_schema :: "string check list" where
  "streetaddress_schema = [(\<lambda>s. 1 \<le> length s, ''Street address is required'', False)]"

definition city_schema :: "string check list" where
  "city_schema = [(\<lambda>s. 1 \<le> length s, ''City is required'', False)]"

definition zipcode_schema :: "string check list" where
  "zipcode_schema =
     [(\<lambda>s. 1 \<le> length s, ''Zip code is required'', False),
      (regexDigits, ''Zip code must be digits only'', False),
      (\<lambda>s. length s = 5, ''Zip code must be exactly 5 digits'', False)]"

definition terms_schema :: "bool check list" where
  "terms_schema = [(\<lambda>b. b, ''You must accept the terms and conditions'', True)]"

text \<open>The keys of \<^verbatim>\<open>z.object({...})\<close>, in the order the object lists them.\<close>

datatype field =
  Fullname | Email | Phone | Dob | AccountType | InitialDeposit | Currency
  | Streetaddress | City | Zipcode | Terms

definition shape :: "field list" where
  "shape = [Fullname, Email, Phone, Dob, AccountType, InitialDeposit, Currency,
            Streetaddress, City, Zipcode, Terms]"

text \<open>A field's chain, read on the whole record: each check looks at its own field.\<close>

definition onField :: "('r \<Rightarrow> 'a) \<Rightarrow> 'a check list \<Rightarrow> 'r check list" where
  "onField sel cs = map (\<lambda>(ok, message, aborts). (\<lambda>r. ok (sel r), message, aborts)) cs"

fun schema :: "platform \<Rightarrow> field \<Rightarrow> FormDataType check list" where
  "schema pf Fullname = onField fullname fullname_schema"
| "schema pf Email = onField email (email_schema pf)"
| "schema pf Phone = onField phone phone_schema"
| "schema pf Dob = onField dob (dob_schema pf)"
| "schema pf AccountType = onField accountType accountType_schema"
| "schema pf InitialDeposit = onField initialDeposit initialDeposit_schema"
| "schema pf Currency = onField currency currency_schema"
| "schema pf Streetaddress = onField streetaddress streetaddress_schema"
| "schema pf City = onField city city_schema"
| "schema pf Zipcode = onField zipcode zipcode_schema"
| "schema pf Terms = onField terms terms_schema"

text \<open>
  Parsing the object parses every key, whatever the other keys did, and collects the
  issues in the order of the keys, each under the path of its field.
\<close>

definition fieldIssues :: "platform \<Rightarrow> FormDataType \<Rightarrow> field \<Rightarrow> string list" where
  "fieldIssues pf v f = runChecks (schema pf f) v"

definition issues :: "platform \<Rightarrow> FormDataType \<Rightarrow> (field \<times> string) list" where
  "issues pf v = concat (map (\<lambda>f. map (Pair f) (fieldIssues pf v f)) shape)"

text \<open>
  The resolver turns the list of issues into the error object of the form: it walks the
  issues in order and records an issue only when its path has no entry yet.
\<close>

fun parseErrorSchema ::
  "(field \<times> string) list \<Rightarrow> (field \<rightharpoonup> string) \<Rightarrow> (field \<rightharpoonup> string)" where
  "parseErrorSchema [] errors = errors"
| "parseErrorSchema ((path, message) # rest) errors =
     parseErrorSchema rest
       (if errors path = None then errors(path \<mapsto> message) else errors)"

text \<open>
  \<^verbatim>\<open>zodResolver(schema)\<close>: the parsed data when no issue was raised (the schema has no
  transformation, so the data are the input), the error object otherwise.
\<close>

definition validate ::
  "platform \<Rightarrow> FormDataType \<Rightarrow> (field \<rightharpoonup> string) + FormDataType" where
  "validate pf v =
     (if issues pf v = [] then Inr v else Inl (parseErrorSchema (issues pf v) Map.empty))"

text \<open>
  Two readings of a field's chain in the schema, used to reason about \<open>validate\<close>:
  every check of the chain holds on the values, and the message of the first check of
  the chain, in the order of the source, that does not hold.
\<close>

definition chainHolds :: "platform \<Rightarrow> FormDataType \<Rightarrow> field \<Rightarrow> bool" where
  "chainHolds pf v f = list_all (\<lambda>(ok, message, aborts). ok v) (schema pf f)"

definition firstFailure :: "'a check list \<Rightarrow> 'a \<Rightarrow> string option" where
  "firstFailure cs x =
     map_option (\<lambda>(ok, message, aborts). message) (find (\<lambda>(ok, message, aborts). \<not> ok x) cs)"

definition firstFailing :: "platform \<Rightarrow> FormDataType \<Rightarrow> field \<Rightarrow> string option" where
  "firstFailing pf v f = firstFailure (schema pf f) v"

text \<open>The message the form shows under a field after validation, if any.\<close>

definition fieldError :: "platform \<Rightarrow> FormDataType \<Rightarrow> field \<Rightarrow> string option" where
  "fieldError pf v f = (case validate pf v of Inl errs \<Rightarrow> errs f | Inr data \<Rightarrow> None)"

definition accepts :: "platform \<Rightarrow> FormDataType \<Rightarrow> field \<Rightarrow> bool" where
  "accepts pf v f = (fieldError pf v f = None)"

subsection \<open>The component\<close>

text \<open>
  The state of the mounted component: the values the inputs hold, react-hook-form's
  \<^verbatim>\<open>formState\<close> (\<open>errors\<close>, \<open>isSubmitting\<close>, and \<open>submitCount\<close>, which is positive once
  a submission has completed), the component's own \<^verbatim>\<open>isSubmitted\<close> flag, and the
  resolver results of the calls of \<^verbatim>\<open>handleSubmit\<close> that have started and not yet
  finished. \<^verbatim>\<open>handleSubmit\<close> is asynchronous and has no guard of its own: every call
  starts a validation. \<open>badInput\<close> holds the inputs whose text the browser cannot
  convert to a value (a date typed in part, a deposit that is not a number); the value
  of such an input reads as empty.
\<close>

record controller =
  formValues :: FormDataType
  errors :: "field \<rightharpoonup> string"
  isSubmitting :: bool
  submitCount :: nat
  inflight :: "((field \<rightharpoonup> string) + FormDataType) list"
  isSubmitted :: bool
  badInput :: "field set"

definition emptyForm :: FormDataType where
  "emptyForm =
     \<lparr>fullname = [], email = [], phone = [], dob = [], accountType = [],
      initialDeposit = NaN, currency = [], streetaddress = [], city = [], zipcode = [],
      terms = False\<rparr>"

definition mount :: controller where
  "mount =
     \<lparr>formValues = emptyForm, errors = Map.empty, isSubmitting = False, submitCount = 0,
      inflight = [], isSubmitted = False, badInput = {}\<rparr>"

text \<open>
  What the component returns: the success message once \<^verbatim>\<open>isSubmitted\<close> is set,
  otherwise the form with the messages of \<open>errors\<close> under their inputs and the submit
  button, \<^verbatim>\<open>disabled={isSubmitting}\<close>.
\<close>

datatype view = Success | Form "field \<rightharpoonup> string" bool

definition render :: "controller \<Rightarrow> view" where
  "render c = (if isSubmitted c then Success else Form (errors c) (isSubmitting c))"

text \<open>
  The user's edits, one input at a time. \<open>BadDob\<close> and \<open>BadInitialDeposit\<close> leave text
  in the date or number input that the browser cannot convert; every other edit of an
  input leaves it with the value given.
\<close>

datatype edit =
  SetFullname string | SetEmail string | SetPhone string | SetDob string
  | SetAccountType string | SetInitialDeposit number | SetCurrency string
  | SetStreetaddress string | SetCity string | SetZipcode string | SetTerms bool
  | BadDob | BadInitialDeposit

fun applyEdit :: "edit \<Rightarrow> FormDataType \<Rightarrow> FormDataType" where
  "applyEdit (SetFullname s) v = v\<lparr>fullname := s\<rparr>"
| "applyEdit (SetEmail s) v = v\<lparr>email := s\<rparr>"
| "applyEdit (SetPhone s) v = v\<lparr>phone := s\<rparr>"
| "applyEdit (SetDob s) v = v\<lparr>dob := s\<rparr>"
| "applyEdit (SetAccountType s) v = v\<lparr>accountType := s\<rparr>"
| "applyEdit (SetInitialDeposit n) v = v\<lparr>initialDeposit := n\<rparr>"
| "applyEdit (SetCurrency s) v = v\<lparr>currency := s\<rparr>"
| "applyEdit (SetStreetaddress s) v = v\<lparr>streetaddress := s\<rparr>"
| "applyEdit (SetCity s) v = v\<lparr>city := s\<rparr>"
| "applyEdit (SetZipcode s) v = v\<lparr>zipcode := s\<rparr>"
| "applyEdit (SetTerms b) v = v\<lparr>terms := b\<rparr>"
| "applyEdit BadDob v = v\<lparr>dob := []\<rparr>"
| "applyEdit BadInitialDeposit v = v\<lparr>initialDeposit := NaN\<rparr>"

fun editedField :: "edit \<Rightarrow> field" where
  "editedField (SetFullname s) = Fullname"
| "editedField (SetEmail s) = Email"
| "editedField (SetPhone s) = Phone"
| "editedField (SetDob s) = Dob"
| "editedField (SetAccountType s) = AccountType"
| "editedField (SetInitialDeposit n) = InitialDeposit"
| "editedField (SetCurrency s) = Currency"
| "editedField (SetStreetaddress s) = Streetaddress"
| "editedField (SetCity s) = City"
| "editedField (SetZipcode s) = Zipcode"
| "editedField (SetTerms b) = Terms"
| "editedField BadDob = Dob"
| "editedField BadInitialDeposit = InitialDeposit"

fun unconvertible :: "edit \<Rightarrow> bool" where
  "unconvertible BadDob = True"
| "unconvertible BadInitialDeposit = True"
| "unconvertible e = False"

text \<open>
  The events of the component: an edit of an input, a submit trigger of the user (a
  click on the button, Enter in an input), and the moment a pending call of
  \<^verbatim>\<open>handleSubmit\<close> gets its resolver result.
\<close>

datatype event = Change edit | Submit | Resolve

text \<open>
  \<^verbatim>\<open>handleSubmit\<close>, first half: set \<open>isSubmitting\<close> and run the resolver on the
  current values.
\<close>

definition handleSubmit_begin :: "platform \<Rightarrow> controller \<Rightarrow> controller" where
  "handleSubmit_begin pf c =
     c\<lparr>isSubmitting := True, inflight := inflight c @ [validate pf (formValues c)]\<rparr>"

text \<open>
  \<^verbatim>\<open>onSubmit\<close>: log the data and set \<open>isSubmitted\<close>.
\<close>

definition onSubmit :: "FormDataType \<Rightarrow> controller \<Rightarrow> controller" where
  "onSubmit data c = c\<lparr>isSubmitted := True\<rparr>"

text \<open>
  \<^verbatim>\<open>handleSubmit\<close>, second half: store the errors; with no error call \<open>onSubmit\<close> on the
  data; then clear \<open>isSubmitting\<close> and count the submission.
\<close>

definition handleSubmit_end :: "controller \<Rightarrow> controller" where
  "handleSubmit_end c =
     (case inflight c of
        [] \<Rightarrow> c
      | result # rest \<Rightarrow>
          (case result of
             Inl errs \<Rightarrow>
               c\<lparr>errors := errs, isSubmitting := False, submitCount := Suc (submitCount c),
                 inflight := rest\<rparr>
           | Inr data \<Rightarrow>
               (onSubmit data (c\<lparr>errors := Map.empty\<rparr>))
                 \<lparr>isSubmitting := False, submitCount := Suc (submitCount c),
                  inflight := rest\<rparr>))"

text \<open>
  The browser's constraint validation. The form has no \<^verbatim>\<open>noValidate\<close>, so a submit
  trigger raises the submit event only when every input is valid for its type. No input
  is \<^verbatim>\<open>required\<close>, so an empty input is valid. The email input is
  \<^verbatim>\<open>type="email"\<close>: a value that is not empty has to be an e-mail address. The deposit
  input is \<^verbatim>\<open>type="number"\<close> with no \<^verbatim>\<open>step\<close>, \<^verbatim>\<open>min\<close> or \<^verbatim>\<open>max\<close>: the step is 1
  from 0, so a number has to be whole (a number input never holds an infinity). An input
  with text that cannot be converted is invalid. The other inputs carry no constraint.
\<close>

definition constraintValid :: "platform \<Rightarrow> controller \<Rightarrow> bool" where
  "constraintValid pf c =
     (badInput c = {} \<and>
      (email (formValues c) = [] \<or> typeEmail pf (email (formValues c))) \<and>
      (case initialDeposit (formValues c) of
         NaN \<Rightarrow> True
       | Finite x \<Rightarrow> real_of_int \<lfloor>x\<rfloor> = x
       | PosInfinity \<Rightarrow> False
       | NegInfinity \<Rightarrow> False))"

text \<open>
  An event reaches the component through what is rendered. The success view has no
  input and no button. A disabled submit button takes no click, and a form whose submit
  button is disabled is not submitted by Enter. A submit trigger that fails the
  constraint validation raises no submit event: \<^verbatim>\<open>handleSubmit\<close> is not called and the
  state of the component stays as it is. After the first completed submission
  react-hook-form validates again on every change and updates the error of the changed
  field.
\<close>

fun step :: "platform \<Rightarrow> controller \<Rightarrow> event \<Rightarrow> controller" where
  "step pf c (Change e) =
     (case render c of
        Success \<Rightarrow> c
      | Form shown disabled \<Rightarrow>
          (let v = applyEdit e (formValues c); f = editedField e
           in c\<lparr>formValues := v,
                errors := (if 0 < submitCount c then (errors c)(f := fieldError pf v f)
                           else errors c),
                badInput := (if unconvertible e then insert f (badInput c)
                             else badInput c - {f})\<rparr>))"
| "step pf c Submit =
     (case render c of
        Success \<Rightarrow> c
      | Form shown disabled \<Rightarrow>
          if disabled \<or> \<not> constraintValid pf c then c else handleSubmit_begin pf c)"
| "step pf c Resolve = handleSubmit_end c"

definition run :: "platform \<Rightarrow> controller \<Rightarrow> event list \<Rightarrow> controller" where
  "run pf c evs = foldl (step pf) c evs"

text \<open>The three states of the specification, read off the two flags.\<close>

datatype phase = Editing | Submitting | Submitted

definition phase :: "controller \<Rightarrow> phase" where
  "phase c = (if isSubmitted c then Submitted else if isSubmitting c then Submitting else Editing)"

subsection \<open>A concrete platform and the scenario of the specification\<close>

text \<open>
  The pattern of \<^verbatim>\<open>.email()\<close> in zod 3.23:
  \<^verbatim>\<open>/^(?!\.)(?!.*\.\.)([A-Z0-9_'+\-\.]*)[A-Z0-9_+-]@([A-Z0-9][A-Z0-9\-]*\.)+[A-Z]{2,}$/i\<close>.
\<close>

fun splitOn :: "char \<Rightarrow> string \<Rightarrow> string list" where
  "splitOn sep [] = [[]]"
| "splitOn sep (c # cs) =
     (if c = sep then [] # splitOn sep cs
      else (case splitOn sep cs of [] \<Rightarrow> [[c]] | p # ps \<Rightarrow> (c # p) # ps))"

fun hasDotDot :: "string \<Rightarrow> bool" where
  "hasDotDot (a # b # cs) = ((a = CHR ''.'' \<and> b = CHR ''.'') \<or> hasDotDot (b # cs))"
| "hasDotDot s = False"

definition alnum :: "char \<Rightarrow> bool" where
  "alnum c = (letter c \<or> digit c)"

definition localEnd :: "char \<Rightarrow> bool" where
  "localEnd c = (alnum c \<or> c = CHR ''_'' \<or> c = CHR ''+'' \<or> c = CHR ''-'')"

definition localChar :: "char \<Rightarrow> bool" where
  "localChar c = (localEnd c \<or> c = CHR 0x27 \<or> c = CHR ''.'')"

definition domainLabel :: "string \<Rightarrow> bool" where
  "domainLabel l =
     (case l of [] \<Rightarrow> False | c # cs \<Rightarrow> alnum c \<and> list_all (\<lambda>d. alnum d \<or> d = CHR ''-'') cs)"

definition topLevel :: "string \<Rightarrow> bool" where
  "topLevel t = (2 \<le> length t \<and> list_all letter t)"

definition zodEmail :: "string \<Rightarrow> bool" where
  "zodEmail s =
     (case splitOn (CHR ''@'') s of
        [localPart, domain] \<Rightarrow>
          localPart \<noteq> [] \<and> hd localPart \<noteq> CHR ''.'' \<and> \<not> hasDotDot s \<and>
          list_all localChar (butlast localPart) \<and> localEnd (last localPart) \<and>
          (let labels = splitOn (CHR ''.'') domain
           in 2 \<le> length labels \<and> list_all domainLabel (butlast labels) \<and>
              topLevel (last labels))
      | _ \<Rightarrow> False)"

text \<open>
  The valid e-mail address of the HTML standard, which \<^verbatim>\<open>type="email"\<close> checks: one or
  more characters of the local part, \<^verbatim>\<open>@\<close>, and host labels separated by dots, each of
  1 to 63 letters, digits and hyphens with no hyphen at either end.
\<close>

definition atext :: "char \<Rightarrow> bool" where
  "atext c = (alnum c \<or> c \<in> set (''.!#$%&*+/=?^_{|}~-'' @ [CHR 0x27, CHR 0x60]))"

definition hostLabel :: "string \<Rightarrow> bool" where
  "hostLabel l =
     (l \<noteq> [] \<and> length l \<le> 63 \<and> alnum (hd l) \<and> alnum (last l) \<and>
      list_all (\<lambda>c. alnum c \<or> c = CHR ''-'') l)"

definition htmlEmail :: "string \<Rightarrow> bool" where
  "htmlEmail s =
     (case splitOn (CHR ''@'') s of
        [localPart, domain] \<Rightarrow>
          localPart \<noteq> [] \<and> list_all atext localPart \<and>
          list_all hostLabel (splitOn (CHR ''.'') domain)
      | _ \<Rightarrow> False)"

definition browser2024 :: platform where
  "browser2024 =
     \<lparr>currentYear = 2024, utcOffsetMinutes = 0, legacyYear = (\<lambda>s. None),
      emailPattern = zodEmail, typeEmail = htmlEmail\<rparr>"

text \<open>The same browser in a time zone five hours behind UTC.\<close>

definition browserWest :: platform where
  "browserWest = browser2024\<lparr>utcOffsetMinutes := - 300\<rparr>"

definition janeDoe :: FormDataType where
  "janeDoe =
     \<lparr>fullname = ''Jane Doe'', email = ''jane@x.com'', phone = ''1234567890'',
      dob = ''2000-01-01'', accountType = ''savings'', initialDeposit = Finite 500,
      currency = ''USD'', streetaddress = ''1 Main St'', city = ''Springfield'',
      zipcode = ''12345'', terms = True\<rparr>"

subsection \<open>The rule table of the specification\<close>

text \<open>
  The shape the specification names for a date of birth, in its own words: four digits, a
  hyphen, two digits, a hyphen, two digits, and nothing more.
\<close>

definition spec_dateShape :: "string \<Rightarrow> bool" where
  "spec_dateShape s =
     (length s = 10 \<and> list_all digit (take 4 s) \<and> s ! 4 = CHR ''-'' \<and>
      list_all digit (take 2 (drop 5 s)) \<and> s ! 7 = CHR ''-'' \<and> list_all digit (drop 8 s))"

text \<open>The year of a date of birth: the number its first four digits write.\<close>

definition spec_year :: "string \<Rightarrow> int" where
  "spec_year s = decimal (take 4 s)"

text \<open>
  The field rules of the specification, written from its table and not from the schema:
  for each field its rules in the order the table lists them, each with the message the
  form shows for that failure. An RFC-shaped address is what the platform's pattern
  accepts; a deposit is numeric when it is not \<open>NaN\<close>.

  \<^item> fullName: non-empty, length at least 3;
  \<^item> email: non-empty, RFC-shaped address;
  \<^item> phone: non-empty, digits only, exactly 10 characters;
  \<^item> dateOfBirth: matches the shape \<^verbatim>\<open>YYYY-MM-DD\<close>, and year(now) - year(dob) is at
    least 18;
  \<^item> accountType: one of savings, current;
  \<^item> initialDeposit: numeric, at least 100;
  \<^item> currency: one of USD, EUR, LKR;
  \<^item> streetAddress, city: non-empty;
  \<^item> zipCode: non-empty, digits only, exactly 5 characters;
  \<^item> termsAccepted: equal to true.
\<close>

type_synonym spec_rule = "(FormDataType \<Rightarrow> bool) \<times> string"

fun spec_rules :: "platform \<Rightarrow> field \<Rightarrow> spec_rule list" where
  "spec_rules pf Fullname =
     [(\<lambda>v. fullname v \<noteq> [], ''Full name is required''),
      (\<lambda>v. 3 \<le> length (fullname v), ''Full name must be at least 3 characters long'')]"
| "spec_rules pf Email =
     [(\<lambda>v. email v \<noteq> [], ''Email is required''),
      (\<lambda>v. emailPattern pf (email v), ''Invalid email address'')]"
| "spec_rules pf Phone =
     [(\<lambda>v. phone v \<noteq> [], ''Phone number is required''),
      (\<lambda>v. list_all digit (phone v), ''Phone number must be digits only''),
      (\<lambda>v. length (phone v) = 10, ''Phone number must be exactly 10 digits'')]"
| "spec_rules pf Dob =
     [(\<lambda>v. spec_dateShape (dob v), ''Invalid date format (YYYY-MM-DD)''),
      (\<lambda>v. 18 \<le> currentYear pf - spec_year (dob v), ''You must be at least 18 years old'')]"
| "spec_rules pf AccountType =
     [(\<lambda>v. accountType v = ''savings'' \<or> accountType v = ''current'',
       ''Account type is required'')]"
| "spec_rules pf InitialDeposit =
     [(\<lambda>v. initialDeposit v \<noteq> NaN, ''Expected number, received nan''),
      (\<lambda>v. case initialDeposit v of
              NaN \<Rightarrow> False | Finite x \<Rightarrow> 100 \<le> x | PosInfinity \<Rightarrow> True
            | NegInfinity \<Rightarrow> False,
       ''Minimum deposit is $100'')]"
| "spec_rules pf Currency =
     [(\<lambda>v. currency v = ''USD'' \<or> currency v = ''EUR'' \<or> currency v = ''LKR'',
       ''Select a valid currency'')]"
| "spec_rules pf Streetaddress =
     [(\<lambda>v. streetaddress v \<noteq> [], ''Street address is required'')]"
| "spec_rules pf City = [(\<lambda>v. city v \<noteq> [], ''City is required'')]"
| "spec_rules pf Zipcode =
     [(\<lambda>v. zipcode v \<noteq> [], ''Zip code is required''),
      (\<lambda>v. list_all digit (zipcode v), ''Zip code must be digits only''),
      (\<lambda>v. length (zipcode v) = 5, ''Zip code must be exactly 5 digits'')]"
| "spec_rules pf Terms =
     [(\<lambda>v. terms v, ''You must accept the terms and conditions'')]"

text \<open>A field satisfies its rule when every rule of its row holds.\<close>

definition spec_valid :: "platform \<Rightarrow> FormDataType \<Rightarrow> field \<Rightarrow> bool" where
  "spec_valid pf v f = list_all (\<lambda>(holds, message). holds v) (spec_rules pf f)"

text \<open>The message of the first rule of a field's row that fails (first failing rule wins).\<close>

definition spec_firstFailing :: "platform \<Rightarrow> FormDataType \<Rightarrow> field \<Rightarrow> string option" where
  "spec_firstFailing pf v f =
     map_option snd (find (\<lambda>(holds, message). \<not> holds v) (spec_rules pf f))"

text \<open>
  Where the date handling of the program and the rule of the specification can be
  compared: a calendar date written \<^verbatim>\<open>YYYY-MM-DD\<close> (month 1 to 12, day within the
  month), and the case the program reads in the wrong year, the first of January when
  local time is behind UTC. A date of birth is regular when it contains no date pattern
  at all (an empty date input), or is a calendar date other than that case.
\<close>

definition calendarDate :: "string \<Rightarrow> bool" where
  "calendarDate s =
     (case isoDateOnly s of
        None \<Rightarrow> False
      | Some (y, m, d) \<Rightarrow> 1 \<le> m \<and> m \<le> 12 \<and> 1 \<le> d \<and> d \<le> daysInMonth y m)"

definition newYearBehindUTC :: "platform \<Rightarrow> string \<Rightarrow> bool" where
  "newYearBehindUTC pf s =
     (utcOffsetMinutes pf < 0 \<and>
      (case isoDateOnly s of None \<Rightarrow> False | Some (y, m, d) \<Rightarrow> m = 1 \<and> d = 1))"

definition dobRegular :: "platform \<Rightarrow> string \<Rightarrow> bool" where
  "dobRegular pf s = (\<not> regexDate s \<or> (calendarDate s \<and> \<not> newYearBehindUTC pf s))"

section \<open>Properties\<close>

subsection \<open>Rule chains, issues and the error object\<close>

lemma runChecks_onField: "runChecks (onField sel cs) r = runChecks cs (sel r)"
  by (induction cs) (auto simp: onField_def)

lemma firstFailure_runChecks:
  "firstFailure cs x = (case runChecks cs x of [] \<Rightarrow> None | m # ms \<Rightarrow> Some m)"
  by (induction cs) (auto simp: firstFailure_def split: list.splits if_splits)

lemma runChecks_Nil_iff:
  "runChecks cs x = [] \<longleftrightarrow> list_all (\<lambda>(ok, message, aborts). ok x) cs"
  by (induction cs) (auto split: if_splits)

lemma parseErrorSchema_map_of:
  "parseErrorSchema iss m f = (case m f of Some x \<Rightarrow> Some x | None \<Rightarrow> map_of iss f)"
  by (induction iss m rule: parseErrorSchema.induct) (auto split: option.splits)

lemma map_of_tagged:
  "distinct fs \<Longrightarrow>
   map_of (concat (map (\<lambda>f. map (Pair f) (g f)) fs)) f =
     (if f \<in> set fs then (case g f of [] \<Rightarrow> None | m # ms \<Rightarrow> Some m) else None)"
proof (induction fs)
  case Nil
  then show ?case by simp
next
  case (Cons a fs)
  have head: "map_of (map (Pair a) (g a)) f =
      (if f = a then (case g a of [] \<Rightarrow> None | m # ms \<Rightarrow> Some m) else None)"
    by (cases "g a") (auto simp: map_of_eq_None_iff image_iff)
  from Cons show ?case
    by (auto simp: map_add_def head split: option.splits list.splits)
qed

lemma shape_distinct: "distinct shape"
  by (simp add: shape_def)

lemma shape_complete: "f \<in> set shape"
  by (cases f) (simp_all add: shape_def)

lemma firstFailing_None_iff: "firstFailing pf v f = None \<longleftrightarrow> chainHolds pf v f"
  by (simp add: firstFailing_def chainHolds_def firstFailure_runChecks
      runChecks_Nil_iff [symmetric] split: list.splits)

lemma errors_of_issues: "parseErrorSchema (issues pf v) Map.empty f = firstFailing pf v f"
  by (simp add: parseErrorSchema_map_of issues_def map_of_tagged [OF shape_distinct]
      shape_complete fieldIssues_def firstFailing_def firstFailure_runChecks)

lemma issues_Nil_iff: "issues pf v = [] \<longleftrightarrow> (\<forall>f. chainHolds pf v f)"
proof -
  have "issues pf v = [] \<longleftrightarrow> (\<forall>f\<in>set shape. fieldIssues pf v f = [])"
    by (simp add: issues_def)
  also have "\<dots> \<longleftrightarrow> (\<forall>f. fieldIssues pf v f = [])"
    using shape_complete by blast
  finally show ?thesis
    by (simp add: fieldIssues_def chainHolds_def runChecks_Nil_iff)
qed

lemma fieldError_firstFailing: "fieldError pf v f = firstFailing pf v f"
proof (cases "issues pf v = []")
  case True
  then have "chainHolds pf v f"
    by (simp add: issues_Nil_iff)
  then have "firstFailing pf v f = None"
    by (simp add: firstFailing_None_iff)
  with True show ?thesis
    by (simp add: fieldError_def validate_def)
next
  case False
  then show ?thesis
    by (simp add: fieldError_def validate_def errors_of_issues)
qed

lemma validate_Inl_iff:
  "validate pf v = Inl errs \<longleftrightarrow> (\<exists>f. \<not> chainHolds pf v f) \<and> errs = firstFailing pf v"
  by (auto simp: validate_def issues_Nil_iff errors_of_issues fun_eq_iff)

lemma validate_Inr_iff:
  "validate pf v = Inr data \<longleftrightarrow> (\<forall>f. chainHolds pf v f) \<and> data = v"
  by (auto simp: validate_def issues_Nil_iff)

subsection \<open>The first failing check of a field\<close>

lemma firstFailing_Fullname:
  "firstFailing pf v Fullname =
     (if fullname v = [] then Some ''Full name is required''
      else if length (fullname v) < 3 then Some ''Full name must be at least 3 characters long''
      else None)"
  by (cases "fullname v") (auto simp add: firstFailing_def firstFailure_def onField_def fullname_schema_def)

lemma firstFailing_Phone:
  "firstFailing pf v Phone =
     (if phone v = [] then Some ''Phone number is required''
      else if \<not> list_all digit (phone v) then Some ''Phone number must be digits only''
      else if length (phone v) \<noteq> 10 then Some ''Phone number must be exactly 10 digits''
      else None)"
  by (cases "phone v") (simp_all add: firstFailing_def firstFailure_def onField_def phone_schema_def regexDigits_def)

lemma firstFailing_Dob:
  "firstFailing pf v Dob =
     (if \<not> regexDate (dob v) then Some ''Invalid date format (YYYY-MM-DD)''
      else if \<not> adult pf (dob v) then Some ''You must be at least 18 years old''
      else None)"
  by (simp add: firstFailing_def firstFailure_def onField_def dob_schema_def)

lemma firstFailing_InitialDeposit:
  "firstFailing pf v InitialDeposit =
     (case initialDeposit v of
        NaN \<Rightarrow> Some ''Expected number, received nan''
      | Finite x \<Rightarrow> if x < 100 then Some ''Minimum deposit is $100'' else None
      | PosInfinity \<Rightarrow> None
      | NegInfinity \<Rightarrow> Some ''Minimum deposit is $100'')"
  by (cases "initialDeposit v") (simp_all add: firstFailing_def firstFailure_def onField_def initialDeposit_schema_def)

subsection \<open>The schema against the rule table\<close>

lemmas schema_defs = fullname_schema_def email_schema_def phone_schema_def dob_schema_def
  accountType_schema_def initialDeposit_schema_def currency_schema_def
  streetaddress_schema_def city_schema_def zipcode_schema_def terms_schema_def

lemmas eval_defs = regexDigits_def digit_def adult_def getFullYear_def isoDateOnly_def
  decimal_def digitValue_def daysInMonth_def leapYear_def zodEmail_def letter_def alnum_def
  localEnd_def localChar_def domainLabel_def topLevel_def

lemma spec_dateShape_iff: "spec_dateShape s \<longleftrightarrow> dateAt s \<and> length s = 10"
proof (cases "length s = 10")
  case True
  then obtain y1 y2 y3 y4 h1 m1 m2 h2 d1 d2
    where "s = [y1, y2, y3, y4, h1, m1, m2, h2, d1, d2]"
    by (auto simp: numeral_eq_Suc length_Suc_conv)
  then show ?thesis
    by (auto simp: spec_dateShape_def)
next
  case False
  then show ?thesis
    by (simp add: spec_dateShape_def)
qed

lemma dateAt_regexDate: "dateAt s \<Longrightarrow> regexDate s"
  by (cases s) simp_all

lemma daysInMonth_le: "daysInMonth y m \<le> 31"
  by (simp add: daysInMonth_def)

lemma spec_firstFailing_None_iff: "spec_firstFailing pf v f = None \<longleftrightarrow> spec_valid pf v f"
  by (auto simp: spec_firstFailing_def spec_valid_def find_None_iff list_all_iff)

lemma firstFailing_spec_other:
  "f \<noteq> Dob \<Longrightarrow> firstFailing pf v f = spec_firstFailing pf v f"
proof (cases f)
  case InitialDeposit
  then show ?thesis
    by (cases "initialDeposit v")
      (simp_all add: firstFailing_def firstFailure_def spec_firstFailing_def onField_def
        initialDeposit_schema_def)
qed (simp_all add: firstFailing_def firstFailure_def spec_firstFailing_def onField_def
    schema_defs regexDigits_def Suc_le_eq)

lemma calendarDate_year:
  assumes "calendarDate s"
  shows "spec_dateShape s" and "regexDate s"
    and "getFullYear pf s = Some (if newYearBehindUTC pf s then spec_year s - 1 else spec_year s)"
proof -
  from assms obtain y m d where iso: "isoDateOnly s = Some (y, m, d)"
    and md: "1 \<le> m" "m \<le> 12" "1 \<le> d" "d \<le> daysInMonth y m"
    by (auto simp: calendarDate_def split: option.splits)
  from iso have shape: "dateAt s \<and> length s = 10" and y: "y = spec_year s"
    by (simp_all add: isoDateOnly_def spec_year_def split: if_splits)
  from shape show "spec_dateShape s" and "regexDate s"
    by (simp_all add: spec_dateShape_iff dateAt_regexDate)
  from md daysInMonth_le [of y m] have "d \<le> 31"
    by linarith
  with iso md y
  show "getFullYear pf s = Some (if newYearBehindUTC pf s then spec_year s - 1 else spec_year s)"
    by (simp add: getFullYear_def newYearBehindUTC_def)
qed

lemma firstFailing_spec_Dob:
  assumes "dobRegular pf (dob v)"
  shows "firstFailing pf v Dob = spec_firstFailing pf v Dob"
proof (cases "regexDate (dob v)")
  case False
  then have "\<not> spec_dateShape (dob v)"
    using dateAt_regexDate [of "dob v"] by (auto simp: spec_dateShape_iff)
  with False show ?thesis
    by (simp add: firstFailing_Dob spec_firstFailing_def)
next
  case True
  with assms have cal: "calendarDate (dob v)" and reg: "\<not> newYearBehindUTC pf (dob v)"
    by (simp_all add: dobRegular_def)
  from calendarDate_year(1,2) [OF cal] calendarDate_year(3) [OF cal, of pf] reg show ?thesis
    by (simp add: firstFailing_Dob spec_firstFailing_def adult_def)
qed

lemma firstFailing_spec:
  "f \<noteq> Dob \<or> dobRegular pf (dob v) \<Longrightarrow> firstFailing pf v f = spec_firstFailing pf v f"
  using firstFailing_spec_other [of f pf v] firstFailing_spec_Dob [of pf v] by (cases "f = Dob") auto

lemma chainHolds_spec:
  "f \<noteq> Dob \<or> dobRegular pf (dob v) \<Longrightarrow> chainHolds pf v f \<longleftrightarrow> spec_valid pf v f"
  using firstFailing_spec [of f pf v]
  by (simp add: firstFailing_None_iff [symmetric] spec_firstFailing_None_iff [symmetric])

subsection \<open>The scenario, evaluated\<close>

lemma janeDoe_satisfies: "chainHolds browser2024 janeDoe f"
  by (cases f)
    (simp_all add: chainHolds_def onField_def schema_defs eval_defs janeDoe_def
      browser2024_def)

lemma janeDoe_validates: "validate browser2024 janeDoe = Inr janeDoe"
  by (simp add: validate_Inr_iff janeDoe_satisfies)

lemma janeDoe_terms_failing:
  "{f. \<not> chainHolds browser2024 (janeDoe\<lparr>terms := False\<rparr>) f} = {Terms}"
proof (rule set_eqI)
  fix f
  show "f \<in> {f. \<not> chainHolds browser2024 (janeDoe\<lparr>terms := False\<rparr>) f} \<longleftrightarrow> f \<in> {Terms}"
    by (cases f)
      (simp_all add: chainHolds_def onField_def schema_defs eval_defs janeDoe_def
        browser2024_def)
qed

lemma janeDoe_two_failing:
  "{f. \<not> chainHolds browser2024 (janeDoe\<lparr>zipcode := ''1234'', terms := False\<rparr>) f} =
     {Zipcode, Terms}"
proof (rule set_eqI)
  fix f
  show "f \<in> {f. \<not> chainHolds browser2024 (janeDoe\<lparr>zipcode := ''1234'', terms := False\<rparr>) f}
      \<longleftrightarrow> f \<in> {Zipcode, Terms}"
    by (cases f)
      (simp_all add: chainHolds_def onField_def schema_defs eval_defs janeDoe_def
        browser2024_def)
qed

lemma browser2024_email: "emailPattern browser2024 ''jane@x.com''"
  by (simp add: browser2024_def eval_defs)

lemma scenario_without_terms:
  assumes "emailPattern pf ''jane@x.com''" and "2018 \<le> currentYear pf"
  shows "validate pf (janeDoe\<lparr>terms := False\<rparr>) =
    Inl [Terms \<mapsto> ''You must accept the terms and conditions'']"
proof -
  have ff: "firstFailing pf (janeDoe\<lparr>terms := False\<rparr>) f =
      [Terms \<mapsto> ''You must accept the terms and conditions''] f" for f
    using assms
    by (cases f)
      (simp_all add: firstFailing_def firstFailure_def onField_def schema_defs
        regexDigits_def digit_def adult_def getFullYear_def isoDateOnly_def decimal_def
        digitValue_def daysInMonth_def leapYear_def janeDoe_def)
  then have "firstFailing pf (janeDoe\<lparr>terms := False\<rparr>) =
      [Terms \<mapsto> ''You must accept the terms and conditions'']"
    by (rule ext)
  moreover have "\<not> chainHolds pf (janeDoe\<lparr>terms := False\<rparr>) Terms"
    using ff [of Terms] firstFailing_None_iff [of pf "janeDoe\<lparr>terms := False\<rparr>" Terms]
    by simp
  ultimately show ?thesis
    by (auto simp: validate_Inl_iff)
qed

lemma janeDoe_regular: "dobRegular browser2024 (dob janeDoe)"
  by (simp add: dobRegular_def calendarDate_def newYearBehindUTC_def browser2024_def
      janeDoe_def isoDateOnly_def decimal_def digitValue_def digit_def daysInMonth_def
      leapYear_def)

lemma janeDoe_spec_valid: "spec_valid browser2024 janeDoe f"
  using chainHolds_spec [of f browser2024 janeDoe] janeDoe_regular janeDoe_satisfies
  by simp

lemma janeDoe_terms_spec_failing:
  "{f. \<not> spec_valid browser2024 (janeDoe\<lparr>terms := False\<rparr>) f} = {Terms}"
proof -
  have "dobRegular browser2024 (dob (janeDoe\<lparr>terms := False\<rparr>))"
    using janeDoe_regular by simp
  then have "spec_valid browser2024 (janeDoe\<lparr>terms := False\<rparr>) f \<longleftrightarrow>
      chainHolds browser2024 (janeDoe\<lparr>terms := False\<rparr>) f" for f
    by (simp add: chainHolds_spec)
  with janeDoe_terms_failing show ?thesis
    by simp
qed

lemma janeDoe_two_spec_failing:
  "{f. \<not> spec_valid browser2024 (janeDoe\<lparr>zipcode := ''1234'', terms := False\<rparr>) f} =
     {Zipcode, Terms}"
proof -
  have "dobRegular browser2024 (dob (janeDoe\<lparr>zipcode := ''1234'', terms := False\<rparr>))"
    using janeDoe_regular by simp
  then have "spec_valid browser2024 (janeDoe\<lparr>zipcode := ''1234'', terms := False\<rparr>) f \<longleftrightarrow>
      chainHolds browser2024 (janeDoe\<lparr>zipcode := ''1234'', terms := False\<rparr>) f" for f
    by (simp add: chainHolds_spec)
  with janeDoe_two_failing show ?thesis
    by simp
qed

lemma west_2007_validates:
  "validate browserWest (janeDoe\<lparr>dob := ''2007-01-01''\<rparr>) = Inr (janeDoe\<lparr>dob := ''2007-01-01''\<rparr>)"
proof -
  have "chainHolds browserWest (janeDoe\<lparr>dob := ''2007-01-01''\<rparr>) f" for f
    by (cases f)
      (simp_all add: chainHolds_def onField_def schema_defs eval_defs janeDoe_def
        browser2024_def browserWest_def)
  then show ?thesis
    by (simp add: validate_Inr_iff)
qed

lemma west_2007_spec_invalid:
  "\<not> spec_valid browserWest (v\<lparr>dob := ''2007-01-01''\<rparr>) Dob"
  by (simp add: spec_valid_def spec_year_def decimal_def digitValue_def browserWest_def
      browser2024_def)

lemma foo_validate:
  "validate browser2024 (janeDoe\<lparr>email := ''foo''\<rparr>) = Inl [Email \<mapsto> ''Invalid email address'']"
proof -
  have ff: "firstFailing browser2024 (janeDoe\<lparr>email := ''foo''\<rparr>) f =
      [Email \<mapsto> ''Invalid email address''] f" for f
    by (cases f)
      (simp_all add: firstFailing_def firstFailure_def onField_def schema_defs eval_defs
        janeDoe_def browser2024_def)
  then have "firstFailing browser2024 (janeDoe\<lparr>email := ''foo''\<rparr>) =
      [Email \<mapsto> ''Invalid email address'']"
    by (rule ext)
  moreover have "\<not> chainHolds browser2024 (janeDoe\<lparr>email := ''foo''\<rparr>) Email"
    using ff [of Email] firstFailing_None_iff [of browser2024 "janeDoe\<lparr>email := ''foo''\<rparr>" Email]
    by simp
  ultimately show ?thesis
    by (auto simp: validate_Inl_iff)
qed

lemma mount_constraintValid: "constraintValid pf mount"
  by (simp add: constraintValid_def mount_def emptyForm_def)

lemma browser2024_typeEmail: "typeEmail browser2024 ''jane@x.com''"
  by (simp add: browser2024_def htmlEmail_def atext_def hostLabel_def alnum_def letter_def
      digit_def)

lemma janeDoe_constraintValid:
  "email v = ''jane@x.com'' \<Longrightarrow> initialDeposit v = Finite 500 \<Longrightarrow>
   constraintValid browser2024 (mount\<lparr>formValues := v\<rparr>)"
  using browser2024_typeEmail by (simp add: constraintValid_def mount_def)

lemma foo_constraintInvalid:
  "email v = ''foo'' \<Longrightarrow> \<not> constraintValid browser2024 (mount\<lparr>formValues := v\<rparr>)"
  by (simp add: constraintValid_def mount_def browser2024_def htmlEmail_def)

subsection \<open>Validation as a whole\<close>

text \<open>
  Claim C1, against the rule table of the specification. Wherever the date of birth is
  regular, \<open>validate\<close> returns the validated data if and only if every field satisfies
  its rule; otherwise it returns an error set with an entry for every failing field at
  once and for no other field, and when exactly one field fails the error set is that
  one entry. Whatever the date of birth, each of the other ten fields has an entry
  exactly when it fails its rule. The claim fails on the first of January read behind
  UTC: in 2024, five hours behind UTC, a form whose only flaw is the date of birth
  \<open>2007-01-01\<close> (17 years) validates.
\<close>

theorem validate_against_rule_table:
  "(dobRegular pf (dob v) \<longrightarrow>
      ((\<exists>data. validate pf v = Inr data) \<longleftrightarrow> (\<forall>f. spec_valid pf v f)) \<and>
      ((\<forall>f. spec_valid pf v f) \<longrightarrow> validate pf v = Inr v) \<and>
      ((\<exists>f. \<not> spec_valid pf v f) \<longrightarrow>
         (\<exists>errs. validate pf v = Inl errs \<and> dom errs = {f. \<not> spec_valid pf v f})) \<and>
      ({f. \<not> spec_valid pf v f} = {g} \<longrightarrow>
         (\<exists>errs m. validate pf v = Inl errs \<and> errs = [g \<mapsto> m]))) \<and>
   (validate pf v = Inl errs \<and> f \<noteq> Dob \<longrightarrow> (errs f = None \<longleftrightarrow> spec_valid pf v f)) \<and>
   validate browserWest (janeDoe\<lparr>dob := ''2007-01-01''\<rparr>) =
     Inr (janeDoe\<lparr>dob := ''2007-01-01''\<rparr>) \<and>
   \<not> spec_valid browserWest (janeDoe\<lparr>dob := ''2007-01-01''\<rparr>) Dob"
proof (intro conjI impI)
  assume reg: "dobRegular pf (dob v)"
  then have same: "chainHolds pf v f \<longleftrightarrow> spec_valid pf v f" for f
    by (simp add: chainHolds_spec)
  show "(\<exists>data. validate pf v = Inr data) \<longleftrightarrow> (\<forall>f. spec_valid pf v f)"
    by (simp add: validate_Inr_iff same)
  {
    assume "\<forall>f. spec_valid pf v f"
    then show "validate pf v = Inr v"
      by (simp add: validate_Inr_iff same)
  }
  {
    assume fails: "\<exists>f. \<not> spec_valid pf v f"
    have "dom (firstFailing pf v) = {f. \<not> spec_valid pf v f}"
      by (auto simp: dom_def firstFailing_None_iff same)
    with fails show "\<exists>errs. validate pf v = Inl errs \<and> dom errs = {f. \<not> spec_valid pf v f}"
      by (simp add: validate_Inl_iff same)
  }
  {
    assume one: "{f. \<not> spec_valid pf v f} = {g}"
    then have g: "\<not> spec_valid pf v g" and others: "\<And>f. f \<noteq> g \<Longrightarrow> spec_valid pf v f"
      by auto
    from g obtain m where m: "firstFailing pf v g = Some m"
      using firstFailing_None_iff [of pf v g] same [of g] by (cases "firstFailing pf v g") auto
    have "firstFailing pf v = [g \<mapsto> m]"
    proof (rule ext)
      fix f
      show "firstFailing pf v f = [g \<mapsto> m] f"
        using m others [of f] by (simp add: firstFailing_None_iff same)
    qed
    with g show "\<exists>errs m. validate pf v = Inl errs \<and> errs = [g \<mapsto> m]"
      by (auto simp: validate_Inl_iff same)
  }
next
  assume "validate pf v = Inl errs \<and> f \<noteq> Dob"
  then show "errs f = None \<longleftrightarrow> spec_valid pf v f"
    using chainHolds_spec [of f pf v] by (simp add: validate_Inl_iff firstFailing_None_iff)
next
  show "validate browserWest (janeDoe\<lparr>dob := ''2007-01-01''\<rparr>) =
      Inr (janeDoe\<lparr>dob := ''2007-01-01''\<rparr>)"
    by (rule west_2007_validates)
  show "\<not> spec_valid browserWest (janeDoe\<lparr>dob := ''2007-01-01''\<rparr>) Dob"
    by (rule west_2007_spec_invalid)
qed

theorem validate_against_rule_table_witness:
  "validate browser2024 janeDoe = Inr janeDoe \<and>
   (\<exists>errs. validate browser2024 (janeDoe\<lparr>zipcode := ''1234'', terms := False\<rparr>) = Inl errs \<and>
      dom errs = {Zipcode, Terms}) \<and>
   (\<exists>errs m. validate browser2024 (janeDoe\<lparr>terms := False\<rparr>) = Inl errs \<and>
      errs = [Terms \<mapsto> m])"
proof -
  have r: "dobRegular browser2024 (dob janeDoe)"
    "dobRegular browser2024 (dob (janeDoe\<lparr>zipcode := ''1234'', terms := False\<rparr>))"
    "dobRegular browser2024 (dob (janeDoe\<lparr>terms := False\<rparr>))"
    using janeDoe_regular by simp_all
  show ?thesis
    using validate_against_rule_table [of browser2024 janeDoe]
      validate_against_rule_table
        [of browser2024 "janeDoe\<lparr>zipcode := ''1234'', terms := False\<rparr>"]
      validate_against_rule_table [of browser2024 "janeDoe\<lparr>terms := False\<rparr>" Terms]
      r janeDoe_spec_valid janeDoe_terms_spec_failing janeDoe_two_spec_failing
    by auto
qed

text \<open>
  Claim C8, against the rule table of the specification. When \<open>validate\<close> fails, the
  entry of every field other than the date of birth, and of a regular date of birth, is
  the message of the first rule of its row that fails, and the field has no entry
  exactly when it satisfies its rule. An empty full name reports that the name is
  required. The claim fails on the date of birth where the program's date handling
  goes wrong: \<open>12000-01-01\<close> fails the shape rule first and yet gets the age message, and
  \<open>2007-01-01\<close> read five hours behind UTC in 2024 has no entry and is not valid.
\<close>

theorem first_failing_rule_of_table:
  "(validate pf v = Inl errs \<and> (f \<noteq> Dob \<or> dobRegular pf (dob v)) \<longrightarrow>
      errs f = spec_firstFailing pf v f \<and> (errs f = None \<longleftrightarrow> spec_valid pf v f)) \<and>
   (fullname v = [] \<longrightarrow>
      (\<exists>errs. validate pf v = Inl errs \<and> errs Fullname = Some ''Full name is required'')) \<and>
   spec_firstFailing browser2024 (janeDoe\<lparr>dob := ''12000-01-01''\<rparr>) Dob =
     Some ''Invalid date format (YYYY-MM-DD)'' \<and>
   (\<exists>errs. validate browser2024 (janeDoe\<lparr>dob := ''12000-01-01''\<rparr>) = Inl errs \<and>
      errs Dob = Some ''You must be at least 18 years old'') \<and>
   (\<exists>errs. validate browserWest (janeDoe\<lparr>dob := ''2007-01-01'', terms := False\<rparr>) = Inl errs \<and>
      errs Dob = None) \<and>
   \<not> spec_valid browserWest (janeDoe\<lparr>dob := ''2007-01-01'', terms := False\<rparr>) Dob"
proof (intro conjI impI)
  assume a: "validate pf v = Inl errs \<and> (f \<noteq> Dob \<or> dobRegular pf (dob v))"
  then have errs: "errs f = firstFailing pf v f"
    by (simp add: validate_Inl_iff)
  from a have same: "firstFailing pf v f = spec_firstFailing pf v f"
    by (simp add: firstFailing_spec)
  from errs same show "errs f = spec_firstFailing pf v f"
    by simp
  from errs same show "errs f = None \<longleftrightarrow> spec_valid pf v f"
    by (simp add: spec_firstFailing_None_iff)
next
  assume empty: "fullname v = []"
  then have ff: "firstFailing pf v Fullname = Some ''Full name is required''"
    by (simp add: firstFailing_Fullname)
  then have "\<not> chainHolds pf v Fullname"
    using firstFailing_None_iff [of pf v Fullname] by simp
  then have "\<exists>f. \<not> chainHolds pf v f" ..
  then have "validate pf v = Inl (firstFailing pf v)"
    by (simp add: validate_Inl_iff)
  with ff show "\<exists>errs. validate pf v = Inl errs \<and> errs Fullname = Some ''Full name is required''"
    by simp
next
  show "spec_firstFailing browser2024 (janeDoe\<lparr>dob := ''12000-01-01''\<rparr>) Dob =
      Some ''Invalid date format (YYYY-MM-DD)''"
    by (simp add: spec_firstFailing_def spec_dateShape_def)
next
  let ?v = "janeDoe\<lparr>dob := ''12000-01-01''\<rparr>"
  have ff: "firstFailing browser2024 ?v Dob = Some ''You must be at least 18 years old''"
    by (simp add: firstFailing_Dob digit_def adult_def getFullYear_def isoDateOnly_def
        browser2024_def)
  then have "\<not> chainHolds browser2024 ?v Dob"
    using firstFailing_None_iff [of browser2024 ?v Dob] by simp
  then have "\<exists>f. \<not> chainHolds browser2024 ?v f" ..
  then have "validate browser2024 ?v = Inl (firstFailing browser2024 ?v)"
    by (simp add: validate_Inl_iff)
  with ff show "\<exists>errs. validate browser2024 ?v = Inl errs \<and>
      errs Dob = Some ''You must be at least 18 years old''"
    by simp
next
  let ?v = "janeDoe\<lparr>dob := ''2007-01-01'', terms := False\<rparr>"
  have dobv: "firstFailing browserWest ?v Dob = None"
    by (simp add: firstFailing_Dob digit_def adult_def getFullYear_def isoDateOnly_def
        decimal_def digitValue_def daysInMonth_def browser2024_def browserWest_def)
  have "\<not> chainHolds browserWest ?v Terms"
    by (simp add: chainHolds_def onField_def terms_schema_def)
  then have "\<exists>f. \<not> chainHolds browserWest ?v f" ..
  then have "validate browserWest ?v = Inl (firstFailing browserWest ?v)"
    by (simp add: validate_Inl_iff)
  with dobv show "\<exists>errs. validate browserWest ?v = Inl errs \<and> errs Dob = None"
    by simp
next
  have "\<not> spec_valid browserWest ((janeDoe\<lparr>terms := False\<rparr>)\<lparr>dob := ''2007-01-01''\<rparr>) Dob"
    by (rule west_2007_spec_invalid)
  then show "\<not> spec_valid browserWest (janeDoe\<lparr>dob := ''2007-01-01'', terms := False\<rparr>) Dob"
    by (simp add: spec_valid_def)
qed

theorem first_failing_rule_of_table_witness:
  "spec_firstFailing browser2024 (janeDoe\<lparr>terms := False\<rparr>) Terms =
     Some ''You must accept the terms and conditions'' \<and>
   spec_valid browser2024 (janeDoe\<lparr>terms := False\<rparr>) Dob \<and>
   (\<exists>errs. validate browser2024 emptyForm = Inl errs \<and>
      errs Fullname = Some ''Full name is required'')"
proof -
  let ?v = "janeDoe\<lparr>terms := False\<rparr>"
  let ?errs = "[Terms \<mapsto> ''You must accept the terms and conditions'']"
  have "2018 \<le> currentYear browser2024"
    by (simp add: browser2024_def)
  with browser2024_email have v: "validate browser2024 ?v = Inl ?errs"
    by (rule scenario_without_terms)
  have reg: "dobRegular browser2024 (dob ?v)"
    using janeDoe_regular by simp
  from first_failing_rule_of_table [of browser2024 ?v ?errs Terms] v
  have "spec_firstFailing browser2024 ?v Terms = Some ''You must accept the terms and conditions''"
    by simp
  moreover from first_failing_rule_of_table [of browser2024 ?v ?errs Dob] v reg
  have "spec_valid browser2024 ?v Dob"
    by simp
  moreover have "fullname emptyForm = []"
    by (simp add: emptyForm_def)
  with first_failing_rule_of_table [of browser2024 emptyForm]
  have "\<exists>errs. validate browser2024 emptyForm = Inl errs \<and>
      errs Fullname = Some ''Full name is required''"
    by blast
  ultimately show ?thesis
    by blast
qed

subsection \<open>Phone and initial deposit\<close>

text \<open>
  Claim C6. \<open>validate\<close> accepts the phone field if and only if it is non-empty, made of
  digits only and exactly 10 characters long. A phone of length 9 or 11 fails, and so
  does one of 10 characters with a non-digit. A failing phone gets one of three
  messages, which differ from each other: required, digits only, exactly 10 digits.
\<close>

theorem phone_rule:
  "(accepts pf v Phone \<longleftrightarrow>
      phone v \<noteq> [] \<and> list_all digit (phone v) \<and> length (phone v) = 10) \<and>
   (length (phone v) = 9 \<or> length (phone v) = 11 \<longrightarrow> \<not> accepts pf v Phone) \<and>
   (length (phone v) = 10 \<and> \<not> list_all digit (phone v) \<longrightarrow> \<not> accepts pf v Phone) \<and>
   fieldError pf v Phone =
     (if phone v = [] then Some ''Phone number is required''
      else if \<not> list_all digit (phone v) then Some ''Phone number must be digits only''
      else if length (phone v) \<noteq> 10 then Some ''Phone number must be exactly 10 digits''
      else None) \<and>
   distinct [''Phone number is required'', ''Phone number must be digits only'',
     ''Phone number must be exactly 10 digits'']"
  by (auto simp: accepts_def fieldError_firstFailing firstFailing_Phone)

theorem phone_rule_witness:
  "\<not> accepts browser2024 (janeDoe\<lparr>phone := ''123456789''\<rparr>) Phone \<and>
   \<not> accepts browser2024 (janeDoe\<lparr>phone := ''12345678901''\<rparr>) Phone \<and>
   \<not> accepts browser2024 (janeDoe\<lparr>phone := ''12345abcde''\<rparr>) Phone \<and>
   accepts browser2024 janeDoe Phone"
  using phone_rule [of browser2024 "janeDoe\<lparr>phone := ''123456789''\<rparr>"]
    phone_rule [of browser2024 "janeDoe\<lparr>phone := ''12345678901''\<rparr>"]
    phone_rule [of browser2024 "janeDoe\<lparr>phone := ''12345abcde''\<rparr>"]
    phone_rule [of browser2024 janeDoe]
  by (simp add: janeDoe_def digit_def)

text \<open>
  Claim C7. \<open>validate\<close> accepts the initial deposit if and only if it is a number that is
  at least 100. A deposit of exactly 100 passes, and any number below 100 (99.99 among
  them) fails with the minimum-deposit message.
\<close>

theorem initialDeposit_rule:
  "(accepts pf v InitialDeposit \<longleftrightarrow>
      (case initialDeposit v of
         Finite x \<Rightarrow> 100 \<le> x | PosInfinity \<Rightarrow> True | NaN \<Rightarrow> False | NegInfinity \<Rightarrow> False)) \<and>
   (initialDeposit v = Finite 100 \<longrightarrow> accepts pf v InitialDeposit) \<and>
   (initialDeposit v = Finite x \<and> x < 100 \<longrightarrow>
      fieldError pf v InitialDeposit = Some ''Minimum deposit is $100'')"
  by (auto simp: accepts_def fieldError_firstFailing firstFailing_InitialDeposit
      split: number.splits)

theorem initialDeposit_rule_witness:
  "accepts browser2024 (janeDoe\<lparr>initialDeposit := Finite 100\<rparr>) InitialDeposit \<and>
   fieldError browser2024
     (janeDoe\<lparr>initialDeposit := Finite (7036170730324623 / 70368744177664)\<rparr>) InitialDeposit =
     Some ''Minimum deposit is $100''"
  using initialDeposit_rule [of browser2024 "janeDoe\<lparr>initialDeposit := Finite 100\<rparr>"]
    initialDeposit_rule [of browser2024
      "janeDoe\<lparr>initialDeposit := Finite (7036170730324623 / 70368744177664)\<rparr>"
      "7036170730324623 / 70368744177664"]
  by simp

text \<open>
  Claim C10. When the initial deposit is \<open>NaN\<close>, \<open>validate\<close> never succeeds: the result
  is an error set with an entry for the initial deposit, so no validated data carry a
  \<open>NaN\<close> deposit.
\<close>

theorem nan_deposit_never_validates:
  "initialDeposit v = NaN \<longrightarrow>
     (\<exists>errs. validate pf v = Inl errs \<and>
        errs InitialDeposit = Some ''Expected number, received nan'') \<and>
     (\<forall>data. validate pf v \<noteq> Inr data)"
proof
  assume nan: "initialDeposit v = NaN"
  then have ff: "firstFailing pf v InitialDeposit = Some ''Expected number, received nan''"
    by (simp add: firstFailing_InitialDeposit)
  then have "\<not> chainHolds pf v InitialDeposit"
    using firstFailing_None_iff [of pf v InitialDeposit] by simp
  then have "\<exists>f. \<not> chainHolds pf v f" ..
  then have v: "validate pf v = Inl (firstFailing pf v)"
    by (simp add: validate_Inl_iff)
  with ff show "(\<exists>errs. validate pf v = Inl errs \<and>
        errs InitialDeposit = Some ''Expected number, received nan'') \<and>
     (\<forall>data. validate pf v \<noteq> Inr data)"
    by simp
qed

theorem nan_deposit_never_validates_witness:
  "(\<exists>errs. validate browser2024 (janeDoe\<lparr>initialDeposit := NaN\<rparr>) = Inl errs \<and>
      errs InitialDeposit = Some ''Expected number, received nan'') \<and>
   (\<exists>errs. validate browser2024 emptyForm = Inl errs \<and> errs InitialDeposit \<noteq> None)"
  using nan_deposit_never_validates [of "janeDoe\<lparr>initialDeposit := NaN\<rparr>" browser2024]
    nan_deposit_never_validates [of emptyForm browser2024]
  by (auto simp: emptyForm_def)

subsection \<open>Date of birth\<close>

text \<open>
  Claim C5. Every string of the exact shape \<open>YYYY-MM-DD\<close> passes the format check. The
  converse fails: the pattern is not anchored, so \<open>12000-01-01\<close>, a date with a year of
  five digits, passes the format check too, and whatever else is wrong with it, the
  message of its field is never the format message.
\<close>

theorem dob_format_check_unanchored:
  "(spec_dateShape s \<longrightarrow> regexDate s) \<and>
   regexDate ''12000-01-01'' \<and> \<not> spec_dateShape ''12000-01-01'' \<and>
   fieldError pf (v\<lparr>dob := ''12000-01-01''\<rparr>) Dob \<noteq> Some ''Invalid date format (YYYY-MM-DD)''"
proof (intro conjI impI)
  assume "spec_dateShape s"
  then show "regexDate s"
    by (simp add: spec_dateShape_iff dateAt_regexDate)
next
  show r: "regexDate ''12000-01-01''"
    by (simp add: digit_def)
  show "\<not> spec_dateShape ''12000-01-01''"
    by (simp add: spec_dateShape_def)
  from r show "fieldError pf (v\<lparr>dob := ''12000-01-01''\<rparr>) Dob \<noteq>
      Some ''Invalid date format (YYYY-MM-DD)''"
    by (simp add: fieldError_firstFailing firstFailing_Dob)
qed

theorem dob_format_check_unanchored_witness:
  "spec_dateShape ''2000-01-01'' \<and> regexDate ''2000-01-01''"
  using dob_format_check_unanchored [of "''2000-01-01''"]
  by (simp add: spec_dateShape_def digit_def)

lemma calendar_examples:
  "calendarDate ''2006-06-15''" "spec_year ''2006-06-15'' = 2006"
  "calendarDate ''2006-12-31''" "spec_year ''2006-12-31'' = 2006"
  "calendarDate ''2007-01-01''" "spec_year ''2007-01-01'' = 2007"
  by (simp_all add: calendarDate_def spec_year_def isoDateOnly_def decimal_def digitValue_def
      digit_def daysInMonth_def leapYear_def)

text \<open>
  Claim C4. For every calendar date written \<open>YYYY-MM-DD\<close>, other than the first of
  January read behind UTC, the age rule accepts the date if and only if the current
  year minus its year is at least 18. A calendar date whose year is 18 less than the
  current year passes, whatever its day and the time zone: the date exactly 18 years
  before now, and the date 17 years and 364 days before now when the years differ by
  18. The claim fails on the first of January behind UTC: in 2024, five hours behind
  UTC, \<open>2007-01-01\<close> is 17 years back and the rule accepts it.
\<close>

theorem age_rule_against_written_year:
  "(calendarDate s \<and> \<not> newYearBehindUTC pf s \<longrightarrow>
      regexDate s \<and> (adult pf s \<longleftrightarrow> 18 \<le> currentYear pf - spec_year s)) \<and>
   (calendarDate s \<and> currentYear pf - spec_year s = 18 \<longrightarrow> regexDate s \<and> adult pf s) \<and>
   regexDate ''2007-01-01'' \<and> calendarDate ''2007-01-01'' \<and>
   spec_year ''2007-01-01'' = 2007 \<and>
   currentYear browserWest - spec_year ''2007-01-01'' = 17 \<and>
   adult browserWest ''2007-01-01''"
proof (intro conjI impI)
  assume a: "calendarDate s \<and> \<not> newYearBehindUTC pf s"
  then have cal: "calendarDate s"
    by simp
  from calendarDate_year(2) [OF cal] show "regexDate s" .
  from calendarDate_year(3) [OF cal, of pf] a
  show "adult pf s \<longleftrightarrow> 18 \<le> currentYear pf - spec_year s"
    by (simp add: adult_def)
next
  assume a: "calendarDate s \<and> currentYear pf - spec_year s = 18"
  then have cal: "calendarDate s"
    by simp
  from calendarDate_year(2) [OF cal] show "regexDate s" .
  from calendarDate_year(3) [OF cal, of pf] a show "adult pf s"
    by (simp add: adult_def)
next
  show "regexDate ''2007-01-01''"
    by (simp add: digit_def)
  show "calendarDate ''2007-01-01''"
    by (simp add: calendarDate_def isoDateOnly_def decimal_def digitValue_def digit_def
        daysInMonth_def)
  show "spec_year ''2007-01-01'' = 2007"
    by (simp add: spec_year_def decimal_def digitValue_def)
  show "currentYear browserWest - spec_year ''2007-01-01'' = 17"
    by (simp add: spec_year_def decimal_def digitValue_def browserWest_def browser2024_def)
  show "adult browserWest ''2007-01-01''"
    by (simp add: adult_def getFullYear_def isoDateOnly_def decimal_def digitValue_def
        digit_def daysInMonth_def browserWest_def browser2024_def)
qed

theorem age_rule_against_written_year_witness:
  "adult browser2024 ''2006-06-15'' \<and> adult browser2024 ''2006-12-31'' \<and>
   adult browserWest ''2006-12-31'' \<and> \<not> adult browser2024 ''2007-01-01''"
  using age_rule_against_written_year [of "''2006-06-15''" browser2024]
    age_rule_against_written_year [of "''2006-12-31''" browser2024]
    age_rule_against_written_year [of "''2006-12-31''" browserWest]
    age_rule_against_written_year [of "''2007-01-01''" browser2024]
    calendar_examples
  by (simp add: browser2024_def browserWest_def newYearBehindUTC_def)

subsection \<open>Submission\<close>

lemma failing_step:
  assumes "\<not> isSubmitted c" and "list_all isl (inflight c)"
    and "isl (validate pf (formValues c))" and "ev = Submit \<or> ev = Resolve"
  shows "\<not> isSubmitted (step pf c ev) \<and> list_all isl (inflight (step pf c ev)) \<and>
    formValues (step pf c ev) = formValues c"
  using assms
  by (cases "inflight c")
    (auto simp: render_def handleSubmit_begin_def handleSubmit_end_def onSubmit_def
      split: sum.splits if_splits)

lemma failing_run:
  "\<not> isSubmitted c \<Longrightarrow> list_all isl (inflight c) \<Longrightarrow> isl (validate pf (formValues c)) \<Longrightarrow>
   list_all (\<lambda>ev. ev = Submit \<or> ev = Resolve) evs \<Longrightarrow>
   \<not> isSubmitted (run pf c evs) \<and> formValues (run pf c evs) = formValues c"
  unfolding run_def
proof (induction evs arbitrary: c)
  case Nil
  then show ?case by simp
next
  case (Cons ev evs)
  from Cons.prems have ev: "ev = Submit \<or> ev = Resolve"
    and evs: "list_all (\<lambda>ev. ev = Submit \<or> ev = Resolve) evs"
    by simp_all
  from failing_step [OF Cons.prems(1-3) ev]
  have 1: "\<not> isSubmitted (step pf c ev)" and 2: "list_all isl (inflight (step pf c ev))"
    and 3: "formValues (step pf c ev) = formValues c"
    by simp_all
  from 3 Cons.prems(3) have 4: "isl (validate pf (formValues (step pf c ev)))"
    by simp
  from Cons.IH [OF 1 2 4 evs] 3 show ?case
    by simp
qed

text \<open>
  A form on which \<open>validate\<close> fails and no message gets attached: with the email
  \<open>foo\<close> the schema reports an invalid email address, but the browser refuses the
  value of the email input first, no submit event is raised, and after a submit
  trigger the email field has no message.
\<close>

theorem unsubmitted_form_counterexample:
  "validate browser2024 (janeDoe\<lparr>email := ''foo''\<rparr>) =
     Inl [Email \<mapsto> ''Invalid email address''] \<and>
   phase (mount\<lparr>formValues := janeDoe\<lparr>email := ''foo''\<rparr>\<rparr>) = Editing \<and>
   errors (run browser2024 (mount\<lparr>formValues := janeDoe\<lparr>email := ''foo''\<rparr>\<rparr>)
             [Submit, Resolve]) Email = None"
proof -
  have "\<not> constraintValid browser2024 (mount\<lparr>formValues := janeDoe\<lparr>email := ''foo''\<rparr>\<rparr>)"
    by (rule foo_constraintInvalid) simp
  then have "run browser2024 (mount\<lparr>formValues := janeDoe\<lparr>email := ''foo''\<rparr>\<rparr>)
      [Submit, Resolve] = mount\<lparr>formValues := janeDoe\<lparr>email := ''foo''\<rparr>\<rparr>"
    by (simp add: run_def render_def handleSubmit_end_def mount_def)
  then show ?thesis
    by (simp add: foo_validate phase_def mount_def)
qed

text \<open>
  Claim C2, as the program has it. When \<open>validate\<close> fails on the entered values and the
  browser's constraint validation passes, a submission of the idle form goes through
  Submitting back to Editing: the form is rendered with the messages of the error set
  under their fields, and the entered values are what they were. When the constraint
  validation does not pass, a submit trigger changes nothing: no validation starts and
  no message is attached. Either way, as long as the values stay as they are, no
  sequence of submit triggers and resolutions reaches Submitted. The scenario of the
  specification with the terms not accepted (an email the pattern accepts, a current
  year of 2018 or later) gives the error set with the single entry of the terms field.
\<close>

theorem failed_validation_stays_editing:
  "(phase c = Editing \<and> inflight c = [] \<and> validate pf (formValues c) = Inl errs \<and>
    constraintValid pf c \<longrightarrow>
      phase (step pf c Submit) = Submitting \<and>
      phase (run pf c [Submit, Resolve]) = Editing \<and>
      errors (run pf c [Submit, Resolve]) = errs \<and>
      formValues (run pf c [Submit, Resolve]) = formValues c \<and>
      render (run pf c [Submit, Resolve]) = Form errs False) \<and>
   (\<not> constraintValid pf c \<longrightarrow> step pf c Submit = c) \<and>
   (phase c = Editing \<and> inflight c = [] \<and> validate pf (formValues c) = Inl errs \<and>
    list_all (\<lambda>ev. ev = Submit \<or> ev = Resolve) evs \<longrightarrow>
      phase (run pf c evs) \<noteq> Submitted \<and> formValues (run pf c evs) = formValues c) \<and>
   (emailPattern pf ''jane@x.com'' \<and> 2018 \<le> currentYear pf \<longrightarrow>
      validate pf (janeDoe\<lparr>terms := False\<rparr>) =
        Inl [Terms \<mapsto> ''You must accept the terms and conditions''])"
proof (intro conjI impI)
  assume a: "phase c = Editing \<and> inflight c = [] \<and> validate pf (formValues c) = Inl errs \<and>
    constraintValid pf c"
  then have flags: "\<not> isSubmitted c" "\<not> isSubmitting c"
    by (simp_all add: phase_def split: if_splits)
  with a show "phase (step pf c Submit) = Submitting"
    and "phase (run pf c [Submit, Resolve]) = Editing"
    and "errors (run pf c [Submit, Resolve]) = errs"
    and "formValues (run pf c [Submit, Resolve]) = formValues c"
    and "render (run pf c [Submit, Resolve]) = Form errs False"
    by (simp_all add: run_def phase_def render_def handleSubmit_begin_def
        handleSubmit_end_def)
next
  assume "\<not> constraintValid pf c"
  then show "step pf c Submit = c"
    by (simp add: render_def)
next
  assume a: "phase c = Editing \<and> inflight c = [] \<and> validate pf (formValues c) = Inl errs \<and>
    list_all (\<lambda>ev. ev = Submit \<or> ev = Resolve) evs"
  then have "\<not> isSubmitted c" "list_all isl (inflight c)" "isl (validate pf (formValues c))"
    "list_all (\<lambda>ev. ev = Submit \<or> ev = Resolve) evs"
    by (simp_all add: phase_def split: if_splits)
  from failing_run [OF this]
  show "phase (run pf c evs) \<noteq> Submitted" and "formValues (run pf c evs) = formValues c"
    by (simp_all add: phase_def)
next
  assume "emailPattern pf ''jane@x.com'' \<and> 2018 \<le> currentYear pf"
  then show "validate pf (janeDoe\<lparr>terms := False\<rparr>) =
      Inl [Terms \<mapsto> ''You must accept the terms and conditions'']"
    by (simp add: scenario_without_terms)
qed

theorem failed_validation_stays_editing_witness:
  "validate browser2024 (janeDoe\<lparr>terms := False\<rparr>) =
     Inl [Terms \<mapsto> ''You must accept the terms and conditions''] \<and>
   phase (run browser2024 (mount\<lparr>formValues := janeDoe\<lparr>terms := False\<rparr>\<rparr>) [Submit, Resolve]) = Editing \<and>
   errors (run browser2024 (mount\<lparr>formValues := janeDoe\<lparr>terms := False\<rparr>\<rparr>) [Submit, Resolve]) =
     [Terms \<mapsto> ''You must accept the terms and conditions''] \<and>
   formValues (run browser2024 (mount\<lparr>formValues := janeDoe\<lparr>terms := False\<rparr>\<rparr>) [Submit, Resolve]) =
     janeDoe\<lparr>terms := False\<rparr> \<and>
   phase (run browser2024 (mount\<lparr>formValues := janeDoe\<lparr>terms := False\<rparr>\<rparr>)
           [Submit, Submit, Resolve, Resolve, Submit, Resolve]) \<noteq> Submitted \<and>
   step browser2024 (mount\<lparr>formValues := janeDoe\<lparr>email := ''foo''\<rparr>\<rparr>) Submit =
     mount\<lparr>formValues := janeDoe\<lparr>email := ''foo''\<rparr>\<rparr>"
proof -
  let ?c = "mount\<lparr>formValues := janeDoe\<lparr>terms := False\<rparr>\<rparr>"
  let ?d = "mount\<lparr>formValues := janeDoe\<lparr>email := ''foo''\<rparr>\<rparr>"
  let ?errs = "[Terms \<mapsto> ''You must accept the terms and conditions'']"
  have year: "2018 \<le> currentYear browser2024"
    by (simp add: browser2024_def)
  have idle: "phase ?c = Editing \<and> inflight ?c = []"
    by (simp add: phase_def mount_def)
  have v: "validate browser2024 (formValues ?c) = Inl ?errs"
    using scenario_without_terms [OF browser2024_email year] by simp
  have valid: "constraintValid browser2024 ?c"
    by (rule janeDoe_constraintValid) (simp_all add: janeDoe_def)
  have invalid: "\<not> constraintValid browser2024 ?d"
    by (rule foo_constraintInvalid) simp
  have evs: "list_all (\<lambda>ev. ev = Submit \<or> ev = Resolve)
      [Submit, Submit, Resolve, Resolve, Submit, Resolve]"
    by simp
  have same: "formValues ?c = janeDoe\<lparr>terms := False\<rparr>"
    by simp
  from failed_validation_stays_editing
    [of ?c browser2024 ?errs "[Submit, Submit, Resolve, Resolve, Submit, Resolve]"]
    idle v valid evs browser2024_email year
  have "phase (run browser2024 ?c [Submit, Resolve]) = Editing"
    and "errors (run browser2024 ?c [Submit, Resolve]) = ?errs"
    and "formValues (run browser2024 ?c [Submit, Resolve]) = formValues ?c"
    and "phase (run browser2024 ?c [Submit, Submit, Resolve, Resolve, Submit, Resolve]) \<noteq>
      Submitted"
    and "validate browser2024 (janeDoe\<lparr>terms := False\<rparr>) = Inl ?errs"
    by blast+
  moreover from failed_validation_stays_editing [of ?d browser2024] invalid
  have "step browser2024 ?d Submit = ?d"
    by blast
  ultimately show ?thesis
    using same by simp
qed

lemma step_keeps_isSubmitted: "isSubmitted c \<Longrightarrow> isSubmitted (step pf c ev)"
  by (cases ev)
    (auto simp: render_def handleSubmit_end_def onSubmit_def split: list.splits sum.splits)

lemma run_keeps_isSubmitted: "isSubmitted c \<Longrightarrow> isSubmitted (run pf c evs)"
  unfolding run_def by (induction evs arbitrary: c) (simp_all add: step_keeps_isSubmitted)

text \<open>
  Claim C3. Once the component is in the state Submitted, it stays there whatever events
  follow: the success view is rendered, not the form, and edits and submit triggers
  change nothing.
\<close>

theorem submitted_is_terminal:
  "phase c = Submitted \<longrightarrow>
     phase (run pf c evs) = Submitted \<and> render (run pf c evs) = Success \<and>
     step pf c Submit = c \<and> step pf c (Change e) = c"
proof
  assume "phase c = Submitted"
  then have sub: "isSubmitted c"
    by (simp add: phase_def split: if_splits)
  then have "isSubmitted (run pf c evs)"
    by (rule run_keeps_isSubmitted)
  with sub show "phase (run pf c evs) = Submitted \<and> render (run pf c evs) = Success \<and>
     step pf c Submit = c \<and> step pf c (Change e) = c"
    by (simp add: phase_def render_def)
qed

theorem submitted_is_terminal_witness:
  "phase (run browser2024 (mount\<lparr>formValues := janeDoe\<rparr>) [Submit, Resolve]) = Submitted \<and>
   phase (run browser2024 (run browser2024 (mount\<lparr>formValues := janeDoe\<rparr>) [Submit, Resolve])
            [Change (SetTerms False), Submit, Resolve]) = Submitted"
proof -
  let ?c = "mount\<lparr>formValues := janeDoe\<rparr>"
  have "constraintValid browser2024 ?c"
    by (rule janeDoe_constraintValid) (simp_all add: janeDoe_def)
  then have "step browser2024 ?c Submit = handleSubmit_begin browser2024 ?c"
    by (simp add: render_def mount_def)
  then have "phase (run browser2024 ?c [Submit, Resolve]) = Submitted"
    by (simp add: run_def handleSubmit_begin_def handleSubmit_end_def onSubmit_def
        phase_def mount_def janeDoe_validates)
  with submitted_is_terminal
    [of "run browser2024 ?c [Submit, Resolve]" browser2024
      "[Change (SetTerms False), Submit, Resolve]"]
  show ?thesis
    by simp
qed

lemma guard_step:
  assumes "length (inflight c) \<le> 1" and "isSubmitting c \<longleftrightarrow> inflight c \<noteq> []"
  shows "length (inflight (step pf c ev)) \<le> 1 \<and>
    (isSubmitting (step pf c ev) \<longleftrightarrow> inflight (step pf c ev) \<noteq> [])"
proof (cases ev)
  case (Change e)
  with assms show ?thesis
    by (simp add: render_def Let_def)
next
  case Submit
  with assms show ?thesis
    by (auto simp: render_def handleSubmit_begin_def)
next
  case Resolve
  with assms show ?thesis
    by (cases "inflight c")
      (auto simp: handleSubmit_end_def onSubmit_def split: sum.splits)
qed

lemma guard_run:
  "length (inflight c) \<le> 1 \<Longrightarrow> (isSubmitting c \<longleftrightarrow> inflight c \<noteq> []) \<Longrightarrow>
   length (inflight (run pf c evs)) \<le> 1 \<and>
   (isSubmitting (run pf c evs) \<longleftrightarrow> inflight (run pf c evs) \<noteq> [])"
  unfolding run_def
proof (induction evs arbitrary: c)
  case Nil
  then show ?case by simp
next
  case (Cons ev evs)
  from guard_step [OF Cons.prems, of pf ev]
  have "length (inflight (step pf c ev)) \<le> 1"
    and "isSubmitting (step pf c ev) \<longleftrightarrow> inflight (step pf c ev) \<noteq> []"
    by simp_all
  from Cons.IH [OF this] show ?case
    by simp
qed

text \<open>
  Claim C9. While \<open>isSubmitting\<close> is set, a submit trigger is ignored. From the mounted
  component, whatever the events, at most one validation is pending at any time, and one
  is pending exactly while \<open>isSubmitting\<close> is set.
\<close>

theorem submit_ignored_while_submitting:
  "(isSubmitting c \<longrightarrow> step pf c Submit = c) \<and>
   length (inflight (run pf mount evs)) \<le> 1 \<and>
   (isSubmitting (run pf mount evs) \<longleftrightarrow> inflight (run pf mount evs) \<noteq> [])"
proof (intro conjI impI)
  assume "isSubmitting c"
  then show "step pf c Submit = c"
    by (simp add: render_def)
next
  have "length (inflight mount) \<le> 1" and "isSubmitting mount \<longleftrightarrow> inflight mount \<noteq> []"
    by (simp_all add: mount_def)
  from guard_run [OF this, of pf evs]
  show "length (inflight (run pf mount evs)) \<le> 1"
    and "isSubmitting (run pf mount evs) \<longleftrightarrow> inflight (run pf mount evs) \<noteq> []"
    by simp_all
qed

theorem submit_ignored_while_submitting_witness:
  "isSubmitting (step browser2024 mount Submit) \<and>
   step browser2024 (step browser2024 mount Submit) Submit = step browser2024 mount Submit \<and>
   length (inflight (run browser2024 mount [Submit, Submit, Submit])) = 1"
proof -
  have first: "step browser2024 mount Submit = handleSubmit_begin browser2024 mount"
    using mount_constraintValid [of browser2024] by (simp add: render_def mount_def)
  then have sub: "isSubmitting (step browser2024 mount Submit)"
    by (simp add: handleSubmit_begin_def)
  with submit_ignored_while_submitting
    [of "step browser2024 mount Submit" browser2024 "[Submit, Submit, Submit]"]
  have again: "step browser2024 (step browser2024 mount Submit) Submit =
      step browser2024 mount Submit"
    by simp
  then have "run browser2024 mount [Submit, Submit, Submit] = step browser2024 mount Submit"
    by (simp add: run_def)
  with first sub again show ?thesis
    by (simp add: handleSubmit_begin_def mount_def)
qed

end
